theory Spec2Isabelle
  imports Complex_Main "HOL-Library.Monad_Syntax"
begin

section \<open>Request data: decoded JSON and Python's view of it\<close>

text \<open>
  The handlers of \<^verbatim>\<open>routes.py\<close> read the request body with \<^verbatim>\<open>request.get_json()\<close>,
  which yields whatever JSON value the caller sent. A Python float is kept as the number
  it denotes (\<open>Fin\<close>) or as one of the three special values; rounding to a double is
  not modelled.
\<close>

datatype pyfloat = Fin rat | PInf | NInf | NaN

datatype json =
    JNull
  | JBool bool
  | JInt int
  | JFloat pyfloat
  | JStr string
  | JList "json list"
  | JObj "(string \<times> json) list"

text \<open>Python truthiness, as tested by \<^verbatim>\<open>if not data.get(field)\<close>.\<close>

fun truthy :: "json \<Rightarrow> bool" where
  "truthy JNull = False"
| "truthy (JBool b) = b"
| "truthy (JInt n) = (n \<noteq> 0)"
| "truthy (JFloat f) = (f \<noteq> Fin 0)"
| "truthy (JStr s) = (s \<noteq> [])"
| "truthy (JList xs) = (xs \<noteq> [])"
| "truthy (JObj kvs) = (kvs \<noteq> [])"

text \<open>
  A JSON object decodes to a dict; of a repeated key the last occurrence stays.
  \<open>dict_get\<close> is \<^verbatim>\<open>d.get(k)\<close> and \<^verbatim>\<open>d[k]\<close> on a dict (\<open>None\<close>: the key is absent).
\<close>

definition dict_get :: "(string \<times> json) list \<Rightarrow> string \<Rightarrow> json option" where
  "dict_get kvs k = map_of (rev kvs) k"

text \<open>
  \<^verbatim>\<open>data.get(field)\<close> on the decoded body. Only a dict has \<^verbatim>\<open>.get\<close>: on any other
  JSON value the call raises AttributeError (\<open>Inl ()\<close>). An absent key gives Python's
  \<^verbatim>\<open>None\<close>, here \<open>JNull\<close>.
\<close>

fun data_get :: "json \<Rightarrow> string \<Rightarrow> unit + json" where
  "data_get (JObj kvs) k = Inr (case dict_get kvs k of None \<Rightarrow> JNull | Some v \<Rightarrow> v)"
| "data_get _ k = Inl ()"

text \<open>
  The validation loop
  \<^verbatim>\<open>for field in required_fields: if not data.get(field): return ... 400\<close>:
  the first field that is absent or falsy, if any.
\<close>

fun first_missing :: "(string \<times> json) list \<Rightarrow> string list \<Rightarrow> string option" where
  "first_missing kvs [] = None"
| "first_missing kvs (field # rest) =
     (case dict_get kvs field of
        None \<Rightarrow> Some field
      | Some v \<Rightarrow> if \<not> truthy v then Some field else first_missing kvs rest)"

section \<open>The tables of \<^verbatim>\<open>models.py\<close>\<close>

text \<open>
  One record per model class, one list per table (rows in insertion order). A column
  that a handler assigns straight from the request keeps the JSON value assigned; the
  engine's column coercion is not modelled. Timestamps are clock readings.
\<close>

record user =
  user_id :: int
  first_name :: string
  last_name :: string
  role :: string

record project =
  proj_id :: int
  title :: json
  description :: json
  budget :: json
  skills_required :: json
  proj_status :: json
  client_id :: int
  created_at :: int

record proposal =
  prop_id :: int
  cover_letter :: json
  bid_amount :: pyfloat
  timeline_days :: int
  prop_status :: string
  freelancer_id :: int
  project_id :: int
  submitted_at :: int

record db =
  users :: "user list"
  projects :: "project list"
  proposals :: "proposal list"

text \<open>\<^verbatim>\<open>Model.query.get(id)\<close>: the row with that primary key, or \<^verbatim>\<open>None\<close>.\<close>

definition get_user :: "db \<Rightarrow> int \<Rightarrow> user option" where
  "get_user d i = find (\<lambda>u. user_id u = i) (users d)"

definition get_project :: "db \<Rightarrow> int \<Rightarrow> project option" where
  "get_project d i = find (\<lambda>p. proj_id p = i) (projects d)"

definition get_proposal :: "db \<Rightarrow> int \<Rightarrow> proposal option" where
  "get_proposal d i = find (\<lambda>q. prop_id q = i) (proposals d)"

section \<open>The Python runtime and the storage engine\<close>

text \<open>
  What the Python runtime and the storage engine do with a string is outside the
  repository: \<^verbatim>\<open>float(s)\<close> and \<^verbatim>\<open>int(s)\<close> on a \<^verbatim>\<open>str\<close> (\<open>None\<close>: ValueError), and
  how the engine matches a non-integer value against an integer primary key (it may
  match the rows with some key, match none, or refuse to bind the value). So is
  whether \<^verbatim>\<open>db.session.commit()\<close> goes through for the state a handler has built
  (\<open>commit_ok\<close>): a constraint, a value the driver cannot bind or the engine itself
  may make it raise. These are parameters of the model; the theorems below hold
  whatever they are.
\<close>

datatype keyres = Key int | NoMatch | Unbindable

record runtime =
  float_str :: "string \<Rightarrow> pyfloat option"
  int_str :: "string \<Rightarrow> int option"
  key_of :: "json \<Rightarrow> keyres"
  commit_ok :: "db \<Rightarrow> bool"

text \<open>
  \<^verbatim>\<open>float(x)\<close>: \<open>None\<close> stands for the exception (OverflowError for an int beyond the
  largest double, TypeError for null, a list or a dict, ValueError for a bad string).
\<close>

fun py_float :: "runtime \<Rightarrow> json \<Rightarrow> pyfloat option" where
  "py_float rt (JInt n) =
     (if \<bar>n\<bar> < 2 ^ 1024 - 2 ^ 970 then Some (Fin (of_int n)) else None)"
| "py_float rt (JBool b) = Some (Fin (if b then 1 else 0))"
| "py_float rt (JFloat f) = Some f"
| "py_float rt (JStr s) = float_str rt s"
| "py_float rt JNull = None"
| "py_float rt (JList xs) = None"
| "py_float rt (JObj kvs) = None"

text \<open>\<^verbatim>\<open>int(x)\<close>: a float is truncated towards zero; infinities and NaN raise.\<close>

fun py_int :: "runtime \<Rightarrow> json \<Rightarrow> int option" where
  "py_int rt (JInt n) = Some n"
| "py_int rt (JBool b) = Some (if b then 1 else 0)"
| "py_int rt (JFloat (Fin r)) = Some (if 0 \<le> r then \<lfloor>r\<rfloor> else \<lceil>r\<rceil>)"
| "py_int rt (JFloat PInf) = None"
| "py_int rt (JFloat NInf) = None"
| "py_int rt (JFloat NaN) = None"
| "py_int rt (JStr s) = int_str rt s"
| "py_int rt JNull = None"
| "py_int rt (JList xs) = None"
| "py_int rt (JObj kvs) = None"

text \<open>
  A request value used as an integer primary key: an int is itself when it fits the
  engine's 64-bit integer (the driver raises otherwise).
\<close>

fun as_key :: "runtime \<Rightarrow> json \<Rightarrow> keyres" where
  "as_key rt (JInt n) = (if - (2 ^ 63) \<le> n \<and> n < 2 ^ 63 then Key n else Unbindable)"
| "as_key rt v = key_of rt v"

text \<open>
  The integer primary key the engine gives a new row: 1 in an empty table, else the
  largest key plus one.
\<close>

definition next_id :: "int list \<Rightarrow> int" where
  "next_id ids = (case ids of [] \<Rightarrow> 1 | i # rest \<Rightarrow> fold max rest i + 1)"

section \<open>Responses\<close>

text \<open>
  A handler returns \<^verbatim>\<open>jsonify(...), code\<close>. \<open>Msg\<close> is a body \<^verbatim>\<open>{'message': m}\<close>;
  \<open>Err\<close> is the body of an \<^verbatim>\<open>except Exception\<close> branch, whose message is the given
  prefix followed by the exception's text (not modelled); \<open>Created\<close> carries the
  message and the new row's id.
\<close>

record proposal_entry =
  e_id :: int
  e_cover_letter :: json
  e_bid_amount :: pyfloat
  e_timeline_days :: int
  e_status :: string
  e_submitted_at :: int
  e_project_id :: int
  e_project_title :: json
  e_project_budget :: json
  e_project_status :: json
  e_client_name :: string

record project_entry =
  pe_id :: int
  pe_title :: json
  pe_description :: json
  pe_budget :: json
  pe_skills_required :: json
  pe_status :: json
  pe_created_at :: int
  pe_proposal_count :: nat

datatype payload =
    Msg string
  | Err string
  | Created string int
  | ProposalPage "proposal_entry list" nat nat int
  | ProjectPage "project_entry list" nat nat int

type_synonym response = "payload \<times> nat"

type_synonym result = "db \<times> response"

section \<open>\<^verbatim>\<open>auth.py\<close>: the role gate\<close>

text \<open>
  \<^verbatim>\<open>role_required(required_role)\<close> wraps a handler \<open>f\<close>. The caller's identity is the
  one \<^verbatim>\<open>get_jwt_identity()\<close> returns. The handler runs only for a caller that exists
  and whose role is exactly the required one.
\<close>

definition access_denied :: "string \<Rightarrow> response" where
  "access_denied required_role =
     (Msg (''Access denied. '' @ required_role @ '' role required.''), 403)"

definition role_required ::
  "string \<Rightarrow> (user \<Rightarrow> db \<Rightarrow> result) \<Rightarrow> int \<Rightarrow> db \<Rightarrow> result" where
  "role_required required_role f current_user_id d =
     (case get_user d current_user_id of
        None \<Rightarrow> (d, access_denied required_role)
      | Some user \<Rightarrow>
          if role user \<noteq> required_role
          then (d, access_denied required_role)
          else f user d)"

text \<open>
  Every handler body is inside \<^verbatim>\<open>try: ... except Exception as e\<close>, which answers 500
  with the handler's own prefix. Nothing was committed, and the request's session is
  discarded, so the store is the one the request started with.
\<close>

definition failed :: "string \<Rightarrow> db \<Rightarrow> result" where
  "failed prefix d = (d, Err prefix, 500)"

text \<open>
  \<^verbatim>\<open>db.session.commit()\<close> of the state \<open>d'\<close> built from \<open>d\<close>, followed by the
  handler's success response: the one point where a handler's writes reach the store.
\<close>

definition commit :: "runtime \<Rightarrow> string \<Rightarrow> db \<Rightarrow> db \<Rightarrow> response \<Rightarrow> result" where
  "commit rt prefix d d' ok = (if commit_ok rt d' then (d', ok) else failed prefix d)"

text \<open>
  \<^verbatim>\<open>query.paginate(page=page, per_page=per_page, error_out=False)\<close> is the library's:
  a page below 1 is page 1, a page size below 1 is 20, and a page past the end is
  empty. \<open>pages_of\<close> is the number of pages it reports.
\<close>

definition paginate :: "int \<Rightarrow> int \<Rightarrow> 'a list \<Rightarrow> 'a list" where
  "paginate page per_page rows =
     (let p = (if page < 1 then 1 else page);
          n = (if per_page < 1 then 20 else per_page)
      in take (nat n) (drop (nat ((p - 1) * n)) rows))"

definition pages_of :: "int \<Rightarrow> nat \<Rightarrow> nat" where
  "pages_of per_page count =
     (let n = nat (if per_page < 1 then 20 else per_page) in (count + n - 1) div n)"

section \<open>\<^verbatim>\<open>routes.py\<close>: projects\<close>

text \<open>
  \<^verbatim>\<open>create_project\<close>, behind \<^verbatim>\<open>@role_required('client')\<close>. \<open>now\<close> is the clock reading
  that \<^verbatim>\<open>default=datetime.utcnow\<close> stores. The column default gives the new row the
  status \<^verbatim>\<open>'open'\<close>. An exception between the validation and the commit (a KeyError,
  \<^verbatim>\<open>float\<close> raising) is the \<open>None\<close> of the option monad.
\<close>

definition new_project ::
  "runtime \<Rightarrow> (string \<times> json) list \<Rightarrow> int \<Rightarrow> user \<Rightarrow> db \<Rightarrow> project option" where
  "new_project rt kvs now client_user d =
     do {
       t \<leftarrow> dict_get kvs ''title'';
       ds \<leftarrow> dict_get kvs ''description'';
       b \<leftarrow> dict_get kvs ''budget'';
       fb \<leftarrow> py_float rt b;
       s \<leftarrow> dict_get kvs ''skills_required'';
       Some \<lparr>proj_id = next_id (map proj_id (projects d)),
             title = t, description = ds, budget = JFloat fb, skills_required = s,
             proj_status = JStr ''open'', client_id = user_id client_user,
             created_at = now\<rparr>
     }"

definition create_project_handler :: "runtime \<Rightarrow> json \<Rightarrow> int \<Rightarrow> user \<Rightarrow> db \<Rightarrow> result" where
  "create_project_handler rt data now client_user d =
     (case data of
        JObj kvs \<Rightarrow>
          (case first_missing kvs
                  [''title'', ''description'', ''budget'', ''skills_required''] of
             Some field \<Rightarrow> (d, Msg (field @ '' is required''), 400)
           | None \<Rightarrow>
               (case new_project rt kvs now client_user d of
                  None \<Rightarrow> failed ''Error creating project: '' d
                | Some project \<Rightarrow>
                    commit rt ''Error creating project: '' d
                      (d\<lparr>projects := projects d @ [project]\<rparr>)
                      (Created ''Project created successfully'' (proj_id project), 201)))
      | _ \<Rightarrow> failed ''Error creating project: '' d)"

definition create_project :: "runtime \<Rightarrow> int \<Rightarrow> json \<Rightarrow> int \<Rightarrow> db \<Rightarrow> result" where
  "create_project rt current_user_id data now d =
     role_required ''client'' (create_project_handler rt data now) current_user_id d"

text \<open>
  The ownership check shared by \<^verbatim>\<open>update_project\<close>, \<^verbatim>\<open>delete_project\<close> and
  \<^verbatim>\<open>get_project_proposals\<close>: the owner passes; anyone else is looked up and passes
  as an admin. \<open>None\<close>: the caller has no user row and \<^verbatim>\<open>user.role\<close> raises.
\<close>

definition owner_or_admin :: "db \<Rightarrow> project \<Rightarrow> int \<Rightarrow> bool option" where
  "owner_or_admin d project current_user_id =
     (if client_id project \<noteq> current_user_id
      then (case get_user d current_user_id of
              None \<Rightarrow> None
            | Some user \<Rightarrow> Some (role user = ''admin''))
      else Some True)"

text \<open>
  \<^verbatim>\<open>field in data\<close> and \<^verbatim>\<open>data[field]\<close> on the decoded body of \<^verbatim>\<open>update_project\<close>.
  Membership is key membership on a dict, element membership on a list and substring
  on a string, and raises TypeError on anything else; indexing by a string works on a
  dict only.
\<close>

definition is_substr :: "string \<Rightarrow> string \<Rightarrow> bool" where
  "is_substr f s = list_ex (\<lambda>i. take (length f) (drop i s) = f) [0..<Suc (length s)]"

fun has_field :: "json \<Rightarrow> string \<Rightarrow> bool option" where
  "has_field (JObj kvs) f = Some (dict_get kvs f \<noteq> None)"
| "has_field (JList xs) f = Some (JStr f \<in> set xs)"
| "has_field (JStr s) f = Some (is_substr f s)"
| "has_field JNull f = None"
| "has_field (JBool b) f = None"
| "has_field (JInt n) f = None"
| "has_field (JFloat x) f = None"

fun index_field :: "json \<Rightarrow> string \<Rightarrow> json option" where
  "index_field (JObj kvs) f = dict_get kvs f"
| "index_field _ f = None"

text \<open>\<^verbatim>\<open>setattr(project, field, value)\<close> for the five updatable fields.\<close>

definition setattr_project :: "project \<Rightarrow> string \<Rightarrow> json \<Rightarrow> project" where
  "setattr_project project field v =
     (if field = ''title'' then project\<lparr>title := v\<rparr>
      else if field = ''description'' then project\<lparr>description := v\<rparr>
      else if field = ''budget'' then project\<lparr>budget := v\<rparr>
      else if field = ''skills_required'' then project\<lparr>skills_required := v\<rparr>
      else if field = ''status'' then project\<lparr>proj_status := v\<rparr>
      else project)"

text \<open>
  The loop \<^verbatim>\<open>for field in updatable_fields: if field in data: setattr(...)\<close>;
  \<open>None\<close> when the membership test or the indexing raises.
\<close>

fun apply_updates :: "json \<Rightarrow> string list \<Rightarrow> project \<Rightarrow> project option" where
  "apply_updates data [] project = Some project"
| "apply_updates data (field # rest) project =
     (case has_field data field of
        None \<Rightarrow> None
      | Some False \<Rightarrow> apply_updates data rest project
      | Some True \<Rightarrow>
          (case index_field data field of
             None \<Rightarrow> None
           | Some v \<Rightarrow> apply_updates data rest (setattr_project project field v)))"

definition updatable_fields :: "string list" where
  "updatable_fields = [''title'', ''description'', ''budget'', ''skills_required'', ''status'']"

text \<open>
  \<^verbatim>\<open>update_project\<close>. \<^verbatim>\<open>get_or_404\<close> raises inside the \<^verbatim>\<open>try\<close>, so a missing project
  is answered by the \<^verbatim>\<open>except\<close> branch.
\<close>

definition update_project :: "runtime \<Rightarrow> int \<Rightarrow> int \<Rightarrow> json \<Rightarrow> db \<Rightarrow> result" where
  "update_project rt current_user_id pid data d =
     (case get_project d pid of
        None \<Rightarrow> failed ''Error updating project: '' d
      | Some project \<Rightarrow>
          (case owner_or_admin d project current_user_id of
             None \<Rightarrow> failed ''Error updating project: '' d
           | Some False \<Rightarrow> (d, Msg ''Access denied'', 403)
           | Some True \<Rightarrow>
               (case apply_updates data updatable_fields project of
                  None \<Rightarrow> failed ''Error updating project: '' d
                | Some project' \<Rightarrow>
                    commit rt ''Error updating project: '' d
                      (d\<lparr>projects :=
                           map (\<lambda>p. if proj_id p = pid then project' else p) (projects d)\<rparr>)
                      (Msg ''Project updated successfully'', 200))))"

text \<open>
  \<^verbatim>\<open>delete_project\<close>: the proposals of the project are deleted, then the project, and
  both deletions reach the store in the one commit.
\<close>

definition delete_rows :: "int \<Rightarrow> db \<Rightarrow> db" where
  "delete_rows pid d =
     d\<lparr>proposals := filter (\<lambda>q. project_id q \<noteq> pid) (proposals d),
       projects := filter (\<lambda>p. proj_id p \<noteq> pid) (projects d)\<rparr>"

definition delete_project :: "runtime \<Rightarrow> int \<Rightarrow> int \<Rightarrow> db \<Rightarrow> result" where
  "delete_project rt current_user_id pid d =
     (case get_project d pid of
        None \<Rightarrow> failed ''Error deleting project: '' d
      | Some project \<Rightarrow>
          (case owner_or_admin d project current_user_id of
             None \<Rightarrow> failed ''Error deleting project: '' d
           | Some False \<Rightarrow> (d, Msg ''Access denied'', 403)
           | Some True \<Rightarrow>
               commit rt ''Error deleting project: '' d (delete_rows pid d)
                 (Msg ''Project deleted successfully'', 200)))"

text \<open>
  \<^verbatim>\<open>get_my_projects\<close>, behind \<^verbatim>\<open>@role_required('client')\<close>: the caller's projects,
  newest first, one page of them, each with the number of its proposals.
\<close>

definition project_entry_of :: "db \<Rightarrow> project \<Rightarrow> project_entry" where
  "project_entry_of d p =
     \<lparr>pe_id = proj_id p, pe_title = title p, pe_description = description p,
      pe_budget = budget p, pe_skills_required = skills_required p,
      pe_status = proj_status p, pe_created_at = created_at p,
      pe_proposal_count = length (filter (\<lambda>q. project_id q = proj_id p) (proposals d))\<rparr>"

definition get_my_projects_handler :: "int \<Rightarrow> int \<Rightarrow> user \<Rightarrow> db \<Rightarrow> result" where
  "get_my_projects_handler page per_page client_user d =
     (let rows = sort_key (\<lambda>p. - created_at p)
                   (filter (\<lambda>p. client_id p = user_id client_user) (projects d))
      in (d, ProjectPage (map (project_entry_of d) (paginate page per_page rows))
               (length rows) (pages_of per_page (length rows)) page, 200))"

definition get_my_projects :: "int \<Rightarrow> int \<Rightarrow> int \<Rightarrow> db \<Rightarrow> result" where
  "get_my_projects current_user_id page per_page d =
     role_required ''client'' (get_my_projects_handler page per_page) current_user_id d"

section \<open>\<^verbatim>\<open>routes.py\<close>: proposals\<close>

text \<open>
  \<^verbatim>\<open>create_proposal\<close>, behind \<^verbatim>\<open>@role_required('freelancer')\<close>. The checks come in the
  source's order: required fields, the project exists, the project is open, the caller
  has fewer than three proposals on it. The column default gives the new row the status
  \<^verbatim>\<open>'pending'\<close>.
\<close>

definition existing_proposals :: "db \<Rightarrow> int \<Rightarrow> int \<Rightarrow> nat" where
  "existing_proposals d fid pid =
     length (filter (\<lambda>q. freelancer_id q = fid \<and> project_id q = pid) (proposals d))"

definition new_proposal ::
  "runtime \<Rightarrow> (string \<times> json) list \<Rightarrow> int \<Rightarrow> user \<Rightarrow> int \<Rightarrow> db \<Rightarrow> proposal option" where
  "new_proposal rt kvs now freelancer_user pid d =
     do {
       c \<leftarrow> dict_get kvs ''cover_letter'';
       b \<leftarrow> dict_get kvs ''bid_amount'';
       fb \<leftarrow> py_float rt b;
       t \<leftarrow> dict_get kvs ''timeline_days'';
       ti \<leftarrow> py_int rt t;
       Some \<lparr>prop_id = next_id (map prop_id (proposals d)),
             cover_letter = c, bid_amount = fb, timeline_days = ti,
             prop_status = ''pending'', freelancer_id = user_id freelancer_user,
             project_id = pid, submitted_at = now\<rparr>
     }"

definition create_proposal_handler :: "runtime \<Rightarrow> json \<Rightarrow> int \<Rightarrow> user \<Rightarrow> db \<Rightarrow> result" where
  "create_proposal_handler rt data now freelancer_user d =
     (case data of
        JObj kvs \<Rightarrow>
          (case first_missing kvs
                  [''project_id'', ''cover_letter'', ''bid_amount'', ''timeline_days''] of
             Some field \<Rightarrow> (d, Msg (field @ '' is required''), 400)
           | None \<Rightarrow>
               (case dict_get kvs ''project_id'' of
                  None \<Rightarrow> failed ''Error submitting proposal: '' d
                | Some v \<Rightarrow>
                    (case as_key rt v of
                       Unbindable \<Rightarrow> failed ''Error submitting proposal: '' d
                     | NoMatch \<Rightarrow> (d, Msg ''Project not found'', 404)
                     | Key pid \<Rightarrow>
                         (case get_project d pid of
                            None \<Rightarrow> (d, Msg ''Project not found'', 404)
                          | Some project \<Rightarrow>
                              if proj_status project \<noteq> JStr ''open''
                              then (d, Msg ''Project is not accepting proposals'', 400)
                              else if 3 \<le> existing_proposals d (user_id freelancer_user) pid
                              then (d, Msg ''Proposal limit reached (3 proposals per project)'',
                                    400)
                              else
                                (case new_proposal rt kvs now freelancer_user pid d of
                                   None \<Rightarrow> failed ''Error submitting proposal: '' d
                                 | Some proposal \<Rightarrow>
                                     commit rt ''Error submitting proposal: '' d
                                       (d\<lparr>proposals := proposals d @ [proposal]\<rparr>)
                                       (Created ''Proposal submitted successfully''
                                          (prop_id proposal), 201))))))
      | _ \<Rightarrow> failed ''Error submitting proposal: '' d)"

definition create_proposal :: "runtime \<Rightarrow> int \<Rightarrow> json \<Rightarrow> int \<Rightarrow> db \<Rightarrow> result" where
  "create_proposal rt current_user_id data now d =
     role_required ''freelancer'' (create_proposal_handler rt data now) current_user_id d"

text \<open>
  \<^verbatim>\<open>get_my_proposals\<close>, behind \<^verbatim>\<open>@role_required('freelancer')\<close>. The query selects the
  caller's proposals, newest first, and takes one page. Each entry reads the proposal's
  project and that project's client through the relationships; a missing row makes the
  attribute access raise (\<open>None\<close>).
\<close>

definition my_proposals_query :: "db \<Rightarrow> user \<Rightarrow> proposal list" where
  "my_proposals_query d freelancer_user =
     sort_key (\<lambda>q. - submitted_at q)
       (filter (\<lambda>q. freelancer_id q = user_id freelancer_user) (proposals d))"

definition proposal_entry_of :: "db \<Rightarrow> proposal \<Rightarrow> proposal_entry option" where
  "proposal_entry_of d q =
     do {
       p \<leftarrow> get_project d (project_id q);
       c \<leftarrow> get_user d (client_id p);
       Some \<lparr>e_id = prop_id q, e_cover_letter = cover_letter q,
             e_bid_amount = bid_amount q, e_timeline_days = timeline_days q,
             e_status = prop_status q, e_submitted_at = submitted_at q,
             e_project_id = proj_id p, e_project_title = title p,
             e_project_budget = budget p, e_project_status = proj_status p,
             e_client_name = first_name c @ '' '' @ last_name c\<rparr>
     }"

definition get_my_proposals_handler :: "int \<Rightarrow> int \<Rightarrow> user \<Rightarrow> db \<Rightarrow> result" where
  "get_my_proposals_handler page per_page freelancer_user d =
     (let rows = my_proposals_query d freelancer_user;
          items = paginate page per_page rows
      in case those (map (proposal_entry_of d) items) of
           None \<Rightarrow> failed ''Error fetching your proposals: '' d
         | Some proposal_list \<Rightarrow>
             (d, ProposalPage proposal_list (length rows)
                   (pages_of per_page (length rows)) page, 200))"

definition get_my_proposals :: "int \<Rightarrow> int \<Rightarrow> int \<Rightarrow> db \<Rightarrow> result" where
  "get_my_proposals current_user_id page per_page d =
     role_required ''freelancer'' (get_my_proposals_handler page per_page) current_user_id d"

text \<open>
  \<^verbatim>\<open>update_proposal_status\<close>. The three writes of the accepting branch, each as the
  source makes it: the target row, the bulk update of the other rows of the project, and
  the project row.
\<close>

definition set_status :: "int \<Rightarrow> string \<Rightarrow> proposal list \<Rightarrow> proposal list" where
  "set_status proposal_id s qs =
     map (\<lambda>q. if prop_id q = proposal_id then q\<lparr>prop_status := s\<rparr> else q) qs"

definition reject_others :: "int \<Rightarrow> int \<Rightarrow> proposal list \<Rightarrow> proposal list" where
  "reject_others pid proposal_id qs =
     map (\<lambda>q. if project_id q = pid \<and> prop_id q \<noteq> proposal_id
              then q\<lparr>prop_status := ''rejected''\<rparr> else q) qs"

definition set_in_progress :: "int \<Rightarrow> project list \<Rightarrow> project list" where
  "set_in_progress pid ps =
     map (\<lambda>p. if proj_id p = pid then p\<lparr>proj_status := JStr ''in_progress''\<rparr> else p) ps"

definition apply_status :: "project \<Rightarrow> int \<Rightarrow> string \<Rightarrow> db \<Rightarrow> db" where
  "apply_status project proposal_id new_status d =
     (let d1 = d\<lparr>proposals := set_status proposal_id new_status (proposals d)\<rparr>
      in if new_status = ''accepted''
         then d1\<lparr>proposals := reject_others (proj_id project) proposal_id (proposals d1),
                 projects := set_in_progress (proj_id project) (projects d1)\<rparr>
         else d1)"

text \<open>The 400 answer; \<open>CHR 0x22\<close> is the double quote of the source's message.\<close>

definition invalid_status :: response where
  "invalid_status =
     (Msg (''Status must be '' @ [CHR 0x22] @ ''accepted'' @ [CHR 0x22] @ '' or ''
           @ [CHR 0x22] @ ''rejected'' @ [CHR 0x22]), 400)"

definition update_proposal_status :: "runtime \<Rightarrow> int \<Rightarrow> int \<Rightarrow> json \<Rightarrow> db \<Rightarrow> result" where
  "update_proposal_status rt current_user_id proposal_id data d =
     (case get_proposal d proposal_id of
        None \<Rightarrow> failed ''Error updating proposal status: '' d
      | Some proposal \<Rightarrow>
          (case get_project d (project_id proposal) of
             None \<Rightarrow> failed ''Error updating proposal status: '' d
           | Some project \<Rightarrow>
               if client_id project \<noteq> current_user_id
               then (d, Msg ''Access denied'', 403)
               else
                 (case data_get data ''status'' of
                    Inl _ \<Rightarrow> failed ''Error updating proposal status: '' d
                  | Inr (JStr new_status) \<Rightarrow>
                      if new_status \<noteq> ''accepted'' \<and> new_status \<noteq> ''rejected''
                      then (d, invalid_status)
                      else
                        commit rt ''Error updating proposal status: '' d
                          (apply_status project proposal_id new_status d)
                          (Msg (''Proposal '' @ new_status @ '' successfully''), 200)
                  | Inr _ \<Rightarrow>
                      (d, invalid_status))))"

section \<open>The API as a transition system\<close>

text \<open>
  One constructor per handler of \<^verbatim>\<open>routes.py\<close> that writes, and the two role-gated
  listings. The four remaining handlers (\<^verbatim>\<open>get_projects\<close>, \<^verbatim>\<open>get_project\<close>,
  \<^verbatim>\<open>get_project_proposals\<close>, \<^verbatim>\<open>get_proposal\<close>) assign nothing and never commit.
\<close>

datatype request =
    CreateProject int json int
  | UpdateProject int int json
  | DeleteProject int int
  | GetMyProjects int int int
  | CreateProposal int json int
  | GetMyProposals int int int
  | UpdateProposalStatus int int json

fun handle :: "runtime \<Rightarrow> request \<Rightarrow> db \<Rightarrow> result" where
  "handle rt (CreateProject caller data now) d = create_project rt caller data now d"
| "handle rt (UpdateProject caller pid data) d = update_project rt caller pid data d"
| "handle rt (DeleteProject caller pid) d = delete_project rt caller pid d"
| "handle rt (GetMyProjects caller page per_page) d = get_my_projects caller page per_page d"
| "handle rt (CreateProposal caller data now) d = create_proposal rt caller data now d"
| "handle rt (GetMyProposals caller page per_page) d = get_my_proposals caller page per_page d"
| "handle rt (UpdateProposalStatus caller proposal_id data) d =
     update_proposal_status rt caller proposal_id data d"

text \<open>A sequence of requests, each served on the store the previous one left.\<close>

fun run :: "runtime \<Rightarrow> request list \<Rightarrow> db \<Rightarrow> db \<times> response list" where
  "run rt [] d = (d, [])"
| "run rt (r # rs) d =
     (case handle rt r d of
        (d1, resp) \<Rightarrow> (case run rt rs d1 of (d2, resps) \<Rightarrow> (d2, resp # resps)))"

section \<open>A worked scenario\<close>

text \<open>
  The scenario of the specification: client Alice owns the project "Build API",
  freelancers Bob and Dave bid on it, Carol is an admin. In \<open>rt0\<close> every commit goes
  through and no string converts to a number or a key; the scenario passes its numbers
  as JSON numbers.
\<close>

definition rt0 :: runtime where
  "rt0 = \<lparr>float_str = (\<lambda>s. None), int_str = (\<lambda>s. None), key_of = (\<lambda>v. NoMatch),
          commit_ok = (\<lambda>d. True)\<rparr>"

definition alice :: user where
  "alice = \<lparr>user_id = 1, first_name = ''Alice'', last_name = ''Archer'', role = ''client''\<rparr>"

definition bob :: user where
  "bob = \<lparr>user_id = 2, first_name = ''Bob'', last_name = ''Baker'', role = ''freelancer''\<rparr>"

definition carol :: user where
  "carol = \<lparr>user_id = 3, first_name = ''Carol'', last_name = ''Clerk'', role = ''admin''\<rparr>"

definition dave :: user where
  "dave = \<lparr>user_id = 4, first_name = ''Dave'', last_name = ''Dyer'', role = ''freelancer''\<rparr>"

definition build_api :: project where
  "build_api = \<lparr>proj_id = 1, title = JStr ''Build API'', description = JStr ''REST backend'',
                budget = JFloat (Fin 500), skills_required = JStr ''python'',
                proj_status = JStr ''open'', client_id = 1, created_at = 10\<rparr>"

definition bid :: "int \<Rightarrow> int \<Rightarrow> int \<Rightarrow> proposal" where
  "bid i fid t = \<lparr>prop_id = i, cover_letter = JStr ''I can do it'', bid_amount = Fin 400,
                 timeline_days = 7, prop_status = ''pending'', freelancer_id = fid,
                 project_id = 1, submitted_at = t\<rparr>"

definition db_users :: db where
  "db_users = \<lparr>users = [alice, bob, carol, dave], projects = [], proposals = []\<rparr>"

definition db1 :: db where
  "db1 = db_users\<lparr>projects := [build_api]\<rparr>"

definition db4 :: db where
  "db4 = db1\<lparr>proposals := [bid 1 2 20, bid 2 2 21, bid 3 2 22, bid 4 4 23]\<rparr>"

definition project_body :: "int \<Rightarrow> json" where
  "project_body b = JObj [(''title'', JStr ''Build API''), (''description'', JStr ''REST backend''),
                          (''budget'', JInt b), (''skills_required'', JStr ''python'')]"

definition bid_fields :: "int \<Rightarrow> (string \<times> json) list" where
  "bid_fields pid = [(''project_id'', JInt pid), (''cover_letter'', JStr ''I can do it''),
                     (''bid_amount'', JInt 400), (''timeline_days'', JInt 7)]"

definition bid_body :: json where
  "bid_body = JObj (bid_fields 1)"

definition db_accepted :: db where
  "db_accepted =
     db4\<lparr>proposals := [(bid 1 2 20)\<lparr>prop_status := ''accepted''\<rparr>,
                        (bid 2 2 21)\<lparr>prop_status := ''rejected''\<rparr>,
                        (bid 3 2 22)\<lparr>prop_status := ''rejected''\<rparr>,
                        (bid 4 4 23)\<lparr>prop_status := ''rejected''\<rparr>],
         projects := [build_api\<lparr>proj_status := JStr ''in_progress''\<rparr>]\<rparr>"

definition db_closed :: db where
  "db_closed = db4\<lparr>projects := [build_api\<lparr>proj_status := JStr ''in_progress''\<rparr>]\<rparr>"

definition bid_entry :: "int \<Rightarrow> int \<Rightarrow> proposal_entry" where
  "bid_entry i t = \<lparr>e_id = i, e_cover_letter = JStr ''I can do it'', e_bid_amount = Fin 400,
                     e_timeline_days = 7, e_status = ''pending'', e_submitted_at = t,
                     e_project_id = 1, e_project_title = JStr ''Build API'',
                     e_project_budget = JFloat (Fin 500), e_project_status = JStr ''open'',
                     e_client_name = ''Alice Archer''\<rparr>"

definition status_body :: "string \<Rightarrow> json" where
  "status_body s = JObj [(''status'', JStr s)]"

section \<open>Basic facts about the tables\<close>

lemmas scenario_defs =
  rt0_def alice_def bob_def carol_def dave_def build_api_def bid_def db_users_def
  db1_def db4_def project_body_def bid_body_def status_body_def bid_entry_def
  bid_fields_def db_closed_def db_accepted_def

lemma get_user_id: "get_user d i = Some u \<Longrightarrow> user_id u = i"
  unfolding get_user_def by (auto simp: find_Some_iff)

lemma get_project_id: "get_project d i = Some p \<Longrightarrow> proj_id p = i \<and> p \<in> set (projects d)"
  unfolding get_project_def by (auto simp: find_Some_iff)

lemma get_proposal_id: "get_proposal d i = Some q \<Longrightarrow> prop_id q = i \<and> q \<in> set (proposals d)"
  unfolding get_proposal_def by (auto simp: find_Some_iff)

section \<open>The role gate\<close>

text \<open>
  Claim C10. The role-gated operations (create project, list my projects, create
  proposal, list my proposals) require an exact role match. For a caller whose role is
  not the required one, whatever that role is (admin included), the gate answers 403
  with the store untouched, and the answer does not depend on the handler \<open>f\<close>, which
  is therefore not run; the handler runs only on an exact match.
\<close>

theorem role_required_exact_match:
  assumes "get_user d caller = Some u"
  shows "(role u \<noteq> r \<longrightarrow> role_required r f caller d = (d, access_denied r)) \<and>
         (role u = r \<longrightarrow> role_required r f caller d = f u d) \<and>
         snd (access_denied r) = 403 \<and>
         (role u \<noteq> ''client'' \<longrightarrow>
            create_project rt caller data now d = (d, access_denied ''client'') \<and>
            get_my_projects caller page per_page d = (d, access_denied ''client'')) \<and>
         (role u \<noteq> ''freelancer'' \<longrightarrow>
            create_proposal rt caller data now d = (d, access_denied ''freelancer'') \<and>
            get_my_proposals caller page per_page d = (d, access_denied ''freelancer''))"
  using assms
  by (simp add: role_required_def create_project_def get_my_projects_def
      create_proposal_def get_my_proposals_def access_denied_def)

text \<open>The admin Carol is turned away by all four gated operations.\<close>

theorem role_required_exact_match_witness:
  "get_user db4 3 = Some carol \<and> role carol = ''admin'' \<and>
   create_project rt0 3 (project_body 500) 30 db4
     = (db4, Msg ''Access denied. client role required.'', 403) \<and>
   get_my_projects 3 1 10 db4 = (db4, Msg ''Access denied. client role required.'', 403) \<and>
   create_proposal rt0 3 bid_body 30 db4
     = (db4, Msg ''Access denied. freelancer role required.'', 403) \<and>
   get_my_proposals 3 1 10 db4
     = (db4, Msg ''Access denied. freelancer role required.'', 403)"
proof -
  have u: "get_user db4 3 = Some carol"
    by (simp add: get_user_def scenario_defs)
  have r: "role carol = ''admin''"
    by (simp add: carol_def)
  show ?thesis
    using u r
      role_required_exact_match [OF u, of "''client''"
        "create_project_handler rt0 (project_body 500) 30" rt0 "project_body 500" 30 1 10]
      role_required_exact_match [OF u, of "''freelancer''"
        "create_proposal_handler rt0 bid_body 30" rt0 bid_body 30 1 10]
    by (simp add: access_denied_def)
qed

section \<open>Who may accept or reject\<close>

text \<open>
  Claim C6. For a caller who is not the owning client of the proposal's project,
  \<^verbatim>\<open>update_proposal_status\<close> answers 403 "Access denied" and leaves the store as it
  was; the caller's role is never consulted, so an admin is refused like anyone else.
  Conversely a call that changes the store or answers 200 comes from the owning client.
  The last conjunct is the asymmetry: the same admin passes the ownership check of
  project update and delete.
\<close>

theorem set_status_owner_only:
  assumes "get_proposal d proposal_id = Some q"
    and "get_project d (project_id q) = Some x"
  shows "(client_id x \<noteq> caller \<longrightarrow>
            update_proposal_status rt caller proposal_id data d
              = (d, Msg ''Access denied'', 403)) \<and>
         (fst (update_proposal_status rt caller proposal_id data d) \<noteq> d \<or>
          snd (snd (update_proposal_status rt caller proposal_id data d)) = 200
            \<longrightarrow> client_id x = caller) \<and>
         (client_id x \<noteq> caller \<and> get_user d caller = Some u \<and> role u = ''admin'' \<longrightarrow>
            owner_or_admin d x caller = Some True)"
  using assms
  by (auto simp: update_proposal_status_def owner_or_admin_def)

text \<open>Carol, an admin who does not own "Build API", may not accept proposal 1.\<close>

theorem set_status_owner_only_witness:
  "get_proposal db4 1 = Some (bid 1 2 20) \<and>
   get_project db4 (project_id (bid 1 2 20)) = Some build_api \<and>
   client_id build_api \<noteq> 3 \<and> get_user db4 3 = Some carol \<and> role carol = ''admin'' \<and>
   update_proposal_status rt0 3 1 (status_body ''accepted'') db4
     = (db4, Msg ''Access denied'', 403) \<and>
   owner_or_admin db4 build_api 3 = Some True"
proof -
  have q: "get_proposal db4 1 = Some (bid 1 2 20)"
    by (simp add: get_proposal_def scenario_defs)
  have x: "get_project db4 (project_id (bid 1 2 20)) = Some build_api"
    by (simp add: get_project_def scenario_defs)
  have c: "client_id build_api \<noteq> 3"
    by (simp add: build_api_def)
  have u: "get_user db4 3 = Some carol"
    by (simp add: get_user_def scenario_defs)
  have r: "role carol = ''admin''"
    by (simp add: carol_def)
  note t = set_status_owner_only [OF q x, of 3 rt0 "status_body ''accepted''" carol]
  from t c have a: "update_proposal_status rt0 3 1 (status_body ''accepted'') db4
      = (db4, Msg ''Access denied'', 403)"
    by blast
  from t c u r have b: "owner_or_admin db4 build_api 3 = Some True"
    by blast
  from q x c u r a b show ?thesis
    by blast
qed

section \<open>Facts about the row updates\<close>

lemma find_set_status:
  "find (\<lambda>r. prop_id r = i) (set_status i s qs)
     = map_option (\<lambda>r. r\<lparr>prop_status := s\<rparr>) (find (\<lambda>r. prop_id r = i) qs)"
  by (induction qs) (auto simp: set_status_def)

lemma find_reject_others:
  "find (\<lambda>r. prop_id r = i) (reject_others pid i qs) = find (\<lambda>r. prop_id r = i) qs"
  by (induction qs) (auto simp: reject_others_def)

lemma find_set_in_progress:
  "find (\<lambda>y. proj_id y = pid) (set_in_progress pid ps)
     = map_option (\<lambda>y. y\<lparr>proj_status := JStr ''in_progress''\<rparr>) (find (\<lambda>y. proj_id y = pid) ps)"
  by (induction ps) (auto simp: set_in_progress_def)

lemma map_id_set_status: "map prop_id (set_status i s qs) = map prop_id qs"
  by (induction qs) (simp_all add: set_status_def)

lemma map_id_reject_others: "map prop_id (reject_others pid i qs) = map prop_id qs"
  by (induction qs) (simp_all add: reject_others_def)

lemma map_id_set_in_progress: "map proj_id (set_in_progress pid ps) = map proj_id ps"
  by (induction ps) (simp_all add: set_in_progress_def)

lemma apply_status_accepted:
  "apply_status x i ''accepted'' d =
     d\<lparr>proposals := reject_others (proj_id x) i (set_status i ''accepted'' (proposals d)),
       projects := set_in_progress (proj_id x) (projects d)\<rparr>"
  by (simp add: apply_status_def)

lemma apply_status_rejected:
  "apply_status x i ''rejected'' d = d\<lparr>proposals := set_status i ''rejected'' (proposals d)\<rparr>"
  by (simp add: apply_status_def)

lemma in_progress_rows:
  assumes "y \<in> set (set_in_progress pid ps)" and "proj_id y = pid"
  shows "proj_status y = JStr ''in_progress''"
proof -
  from assms(1) have
    "y \<in> (\<lambda>p. if proj_id p = pid then p\<lparr>proj_status := JStr ''in_progress''\<rparr> else p) ` set ps"
    unfolding set_in_progress_def set_map .
  then obtain p where
    y: "y = (if proj_id p = pid then p\<lparr>proj_status := JStr ''in_progress''\<rparr> else p)"
    by blast
  show ?thesis
  proof (cases "proj_id p = pid")
    case True
    with y show ?thesis by simp
  next
    case False
    with y have "y = p" by simp
    with assms(2) False show ?thesis by simp
  qed
qed

lemma reject_others_rows:
  assumes "r \<in> set (reject_others pid i qs)" and "project_id r = pid" and "prop_id r \<noteq> i"
  shows "prop_status r = ''rejected''"
proof -
  from assms(1) have
    "r \<in> (\<lambda>q. if project_id q = pid \<and> prop_id q \<noteq> i
               then q\<lparr>prop_status := ''rejected''\<rparr> else q) ` set qs"
    unfolding reject_others_def set_map .
  then obtain q where
    r: "r = (if project_id q = pid \<and> prop_id q \<noteq> i
             then q\<lparr>prop_status := ''rejected''\<rparr> else q)"
    by blast
  show ?thesis
  proof (cases "project_id q = pid \<and> prop_id q \<noteq> i")
    case True
    with r show ?thesis by simp
  next
    case False
    with r have "r = q" by simp
    with assms(2,3) False show ?thesis by simp
  qed
qed

lemma set_status_rows:
  assumes "r \<in> set (set_status i s qs)" and "prop_id r = i"
  shows "prop_status r = s"
proof -
  from assms(1) have
    "r \<in> (\<lambda>q. if prop_id q = i then q\<lparr>prop_status := s\<rparr> else q) ` set qs"
    unfolding set_status_def set_map .
  then obtain q where r: "r = (if prop_id q = i then q\<lparr>prop_status := s\<rparr> else q)"
    by blast
  show ?thesis
  proof (cases "prop_id q = i")
    case True
    with r show ?thesis by simp
  next
    case False
    with r have "r = q" by simp
    with assms(2) False show ?thesis by simp
  qed
qed

lemma reject_others_target:
  assumes "r \<in> set (reject_others pid i qs)" and "prop_id r = i"
  shows "r \<in> set qs"
proof -
  from assms(1) have
    "r \<in> (\<lambda>q. if project_id q = pid \<and> prop_id q \<noteq> i
               then q\<lparr>prop_status := ''rejected''\<rparr> else q) ` set qs"
    unfolding reject_others_def set_map .
  then obtain q where q: "q \<in> set qs" and
    r: "r = (if project_id q = pid \<and> prop_id q \<noteq> i
             then q\<lparr>prop_status := ''rejected''\<rparr> else q)"
    by blast
  show ?thesis
  proof (cases "project_id q = pid \<and> prop_id q \<noteq> i")
    case True
    with r have "prop_id r = prop_id q" by simp
    with True assms(2) show ?thesis by simp
  next
    case False
    with r have "r = q" by simp
    with q show ?thesis by simp
  qed
qed

section \<open>Deleting a project\<close>

text \<open>
  Claim C8. When the owning client or an admin deletes a project that has any number of
  proposals, the handler builds one new state and commits it once: afterwards no
  proposal row references the project id, no project row has it, and every other row
  is as before. If the commit raises, the answer is 500 and the store is the old one,
  so the two deletions take effect together or not at all.
\<close>

theorem delete_project_cascade:
  assumes "get_project d pid = Some p"
    and "client_id p = caller \<or> (get_user d caller = Some u \<and> role u = ''admin'')"
  shows "delete_project rt caller pid d =
           (if commit_ok rt (delete_rows pid d)
            then (delete_rows pid d, Msg ''Project deleted successfully'', 200)
            else (d, Err ''Error deleting project: '', 500)) \<and>
         length (filter (\<lambda>q. project_id q = pid) (proposals (delete_rows pid d))) = 0 \<and>
         length (filter (\<lambda>x. proj_id x = pid) (projects (delete_rows pid d))) = 0 \<and>
         get_project (delete_rows pid d) pid = None \<and>
         proposals (delete_rows pid d) = filter (\<lambda>q. project_id q \<noteq> pid) (proposals d) \<and>
         projects (delete_rows pid d) = filter (\<lambda>x. proj_id x \<noteq> pid) (projects d) \<and>
         users (delete_rows pid d) = users d"
proof -
  have o: "owner_or_admin d p caller = Some True"
    using assms(2) by (auto simp: owner_or_admin_def)
  have "get_project (delete_rows pid d) pid = None"
    by (simp add: get_project_def delete_rows_def find_None_iff)
  then show ?thesis
    using assms(1) o
    by (simp add: delete_project_def commit_def failed_def delete_rows_def)
qed

text \<open>
  "Build API" has four proposals; deleted by the admin Carol, or by its owner Alice, it
  leaves the store with the users only.
\<close>

theorem delete_project_cascade_witness:
  "get_project db4 1 = Some build_api \<and> get_user db4 3 = Some carol \<and> role carol = ''admin'' \<and>
   length (filter (\<lambda>q. project_id q = 1) (proposals db4)) = 4 \<and>
   delete_project rt0 3 1 db4 = (db_users, Msg ''Project deleted successfully'', 200) \<and>
   delete_project rt0 1 1 db4 = (db_users, Msg ''Project deleted successfully'', 200)"
proof -
  have x: "get_project db4 1 = Some build_api"
    by (simp add: get_project_def scenario_defs)
  have u: "get_user db4 3 = Some carol"
    by (simp add: get_user_def scenario_defs)
  have r: "role carol = ''admin''"
    by (simp add: carol_def)
  have o: "client_id build_api = 1"
    by (simp add: build_api_def)
  have n: "length (filter (\<lambda>q. project_id q = 1) (proposals db4)) = 4"
    by (simp add: scenario_defs)
  have e: "delete_rows 1 db4 = db_users"
    by (simp add: delete_rows_def scenario_defs)
  have k: "commit_ok rt0 db_users"
    by (simp add: rt0_def)
  have a: "delete_project rt0 3 1 db4 = (db_users, Msg ''Project deleted successfully'', 200)"
    using delete_project_cascade [OF x, of 3 carol rt0] u r e k by simp
  have b: "delete_project rt0 1 1 db4 = (db_users, Msg ''Project deleted successfully'', 200)"
    using delete_project_cascade [OF x, of 1 carol rt0] o e k by simp
  show ?thesis
    by (intro conjI) (rule x u r n a b)+
qed

section \<open>Accepting a proposal\<close>

text \<open>
  Claim C1. When the owning client of project X calls \<^verbatim>\<open>update_proposal_status\<close> on
  a proposal P of X with status "accepted", the handler builds one new state \<open>d'\<close> and
  commits it once. In \<open>d'\<close> proposal P is accepted, every other proposal on X is
  rejected and X is in progress, with no row added or removed. The call answers 200
  with \<open>d'\<close> as the store, or, if the commit raises, 500 with the old store: all three
  changes or none.
\<close>

theorem accept_cascade_atomic:
  fixes d d' :: db and x :: project and proposal_id :: int
  defines "d' \<equiv> apply_status x proposal_id ''accepted'' d"
  assumes q: "get_proposal d proposal_id = Some q"
    and x: "get_project d (project_id q) = Some x"
    and owner: "client_id x = caller"
    and acc: "data_get data ''status'' = Inr (JStr ''accepted'')"
  shows "update_proposal_status rt caller proposal_id data d =
           (if commit_ok rt d'
            then (d', Msg ''Proposal accepted successfully'', 200)
            else (d, Err ''Error updating proposal status: '', 500)) \<and>
         (\<forall>r\<in>set (proposals d'). prop_id r = proposal_id \<longrightarrow> prop_status r = ''accepted'') \<and>
         (\<forall>r\<in>set (proposals d').
            project_id r = project_id q \<and> prop_id r \<noteq> proposal_id
              \<longrightarrow> prop_status r = ''rejected'') \<and>
         (\<forall>y\<in>set (projects d').
            proj_id y = project_id q \<longrightarrow> proj_status y = JStr ''in_progress'') \<and>
         get_proposal d' proposal_id = Some (q\<lparr>prop_status := ''accepted''\<rparr>) \<and>
         get_project d' (project_id q) = Some (x\<lparr>proj_status := JStr ''in_progress''\<rparr>) \<and>
         map prop_id (proposals d') = map prop_id (proposals d) \<and>
         map proj_id (projects d') = map proj_id (projects d) \<and>
         users d' = users d"
proof -
  have xid: "proj_id x = project_id q"
    using get_project_id [OF x] by simp
  have ps: "proposals d' = reject_others (project_id q) proposal_id
                             (set_status proposal_id ''accepted'' (proposals d))"
    by (simp add: d'_def apply_status_accepted xid)
  have xs: "projects d' = set_in_progress (project_id q) (projects d)"
    by (simp add: d'_def apply_status_accepted xid)
  have run: "update_proposal_status rt caller proposal_id data d =
           (if commit_ok rt d'
            then (d', Msg ''Proposal accepted successfully'', 200)
            else (d, Err ''Error updating proposal status: '', 500))"
    using q x owner acc
    by (simp add: update_proposal_status_def commit_def failed_def d'_def)
  have p1: "\<forall>r\<in>set (proposals d'). prop_id r = proposal_id \<longrightarrow> prop_status r = ''accepted''"
  proof (intro ballI impI)
    fix r assume r: "r \<in> set (proposals d')" and i: "prop_id r = proposal_id"
    from r have "r \<in> set (set_status proposal_id ''accepted'' (proposals d))"
      unfolding ps using i by (rule reject_others_target)
    then show "prop_status r = ''accepted''"
      using i by (rule set_status_rows)
  qed
  have p2: "\<forall>r\<in>set (proposals d').
            project_id r = project_id q \<and> prop_id r \<noteq> proposal_id
              \<longrightarrow> prop_status r = ''rejected''"
  proof (intro ballI impI)
    fix r assume r: "r \<in> set (proposals d')"
      and i: "project_id r = project_id q \<and> prop_id r \<noteq> proposal_id"
    from r i show "prop_status r = ''rejected''"
      unfolding ps by (blast intro: reject_others_rows)
  qed
  have p3: "\<forall>y\<in>set (projects d').
            proj_id y = project_id q \<longrightarrow> proj_status y = JStr ''in_progress''"
  proof (intro ballI impI)
    fix y assume "y \<in> set (projects d')" and "proj_id y = project_id q"
    then show "proj_status y = JStr ''in_progress''"
      unfolding xs by (rule in_progress_rows)
  qed
  have p4: "get_proposal d' proposal_id = Some (q\<lparr>prop_status := ''accepted''\<rparr>)"
    using q by (simp add: ps get_proposal_def find_reject_others find_set_status)
  have p5: "get_project d' (project_id q) = Some (x\<lparr>proj_status := JStr ''in_progress''\<rparr>)"
    using x by (simp add: xs get_project_def find_set_in_progress)
  have p6: "map prop_id (proposals d') = map prop_id (proposals d)"
    by (simp add: ps map_id_reject_others map_id_set_status)
  have p7: "map proj_id (projects d') = map proj_id (projects d)"
    by (simp add: xs map_id_set_in_progress)
  have p8: "users d' = users d"
    by (simp add: d'_def apply_status_accepted)
  show ?thesis
    by (intro conjI) (rule run p1 p2 p3 p4 p5 p6 p7 p8)+
qed

text \<open>Alice accepts proposal 1 of "Build API": the other three are rejected.\<close>

theorem accept_cascade_atomic_witness:
  "get_proposal db4 1 = Some (bid 1 2 20) \<and>
   get_project db4 (project_id (bid 1 2 20)) = Some build_api \<and>
   client_id build_api = 1 \<and>
   data_get (status_body ''accepted'') ''status'' = Inr (JStr ''accepted'') \<and>
   update_proposal_status rt0 1 1 (status_body ''accepted'') db4
     = (apply_status build_api 1 ''accepted'' db4, Msg ''Proposal accepted successfully'', 200) \<and>
   map prop_status (proposals (apply_status build_api 1 ''accepted'' db4))
     = [''accepted'', ''rejected'', ''rejected'', ''rejected''] \<and>
   map proj_status (projects (apply_status build_api 1 ''accepted'' db4))
     = [JStr ''in_progress'']"
proof -
  have q: "get_proposal db4 1 = Some (bid 1 2 20)"
    by (simp add: get_proposal_def scenario_defs)
  have x: "get_project db4 (project_id (bid 1 2 20)) = Some build_api"
    by (simp add: get_project_def scenario_defs)
  have o: "client_id build_api = 1"
    by (simp add: build_api_def)
  have a: "data_get (status_body ''accepted'') ''status'' = Inr (JStr ''accepted'')"
    by (simp add: status_body_def dict_get_def)
  have k: "commit_ok rt0 (apply_status build_api 1 ''accepted'' db4)"
    by (simp add: rt0_def)
  have run: "update_proposal_status rt0 1 1 (status_body ''accepted'') db4
     = (apply_status build_api 1 ''accepted'' db4, Msg ''Proposal accepted successfully'', 200)"
    using accept_cascade_atomic [OF q x o a, of rt0, THEN conjunct1] k by simp
  have e1: "map prop_status (proposals (apply_status build_api 1 ''accepted'' db4))
     = [''accepted'', ''rejected'', ''rejected'', ''rejected'']"
    by (simp add: apply_status_def set_status_def reject_others_def scenario_defs)
  have e2: "map proj_status (projects (apply_status build_api 1 ''accepted'' db4))
     = [JStr ''in_progress'']"
    by (simp add: apply_status_def set_in_progress_def scenario_defs)
  show ?thesis
    by (intro conjI) (rule q x o a run e1 e2)+
qed

section \<open>Listing one's own proposals\<close>

lemma proposal_entry_id: "proposal_entry_of d q = Some e \<Longrightarrow> e_id e = prop_id q"
  by (auto simp: proposal_entry_of_def split: Option.bind_splits)

lemma those_entries_ids:
  "those (map (proposal_entry_of d) items) = Some es \<Longrightarrow> map e_id es = map prop_id items"
proof (induction items arbitrary: es)
  case Nil
  then show ?case by simp
next
  case (Cons q items)
  from Cons.prems obtain e es' where e: "proposal_entry_of d q = Some e"
    and es': "those (map (proposal_entry_of d) items) = Some es'" and es: "es = e # es'"
    by (auto split: option.splits)
  from Cons.IH [OF es'] proposal_entry_id [OF e] es show ?case by simp
qed

lemma paginate_subset: "set (paginate page per_page rows) \<subseteq> set rows"
proof -
  have "set (take n (drop k rows)) \<subseteq> set rows" for n k
    using set_take_subset [of n "drop k rows"] set_drop_subset [of k rows] by blast
  then show ?thesis
    by (simp add: paginate_def Let_def)
qed

lemma my_proposals_query_set:
  "set (my_proposals_query d u) = {q \<in> set (proposals d). freelancer_id q = user_id u}"
  by (simp add: my_proposals_query_def)

text \<open>
  Claim C9. Whatever the page and page size, every entry that \<^verbatim>\<open>get_my_proposals\<close>
  returns is the serialisation of a proposal row whose submitting freelancer is the
  caller: the entries are built from rows \<open>items\<close> selected among the caller's own. An
  entry carries the proposal's id but not its freelancer, so the exclusion is stated on
  ids: primary keys being distinct, the id of another freelancer's proposal is never
  among the returned ones. The call never changes the store.
\<close>

theorem get_my_proposals_isolation:
  assumes run: "get_my_proposals caller page per_page d = (d', ProposalPage es n m c, code)"
  shows "d' = d \<and>
         (\<exists>items. set items \<subseteq> {q \<in> set (proposals d). freelancer_id q = caller} \<and>
            those (map (proposal_entry_of d) items) = Some es \<and>
            map e_id es = map prop_id items) \<and>
         (distinct (map prop_id (proposals d)) \<longrightarrow>
            (\<forall>q\<in>set (proposals d).
               freelancer_id q \<noteq> caller \<longrightarrow> prop_id q \<notin> set (map e_id es)))"
proof -
  from run obtain u where u: "get_user d caller = Some u"
    and h: "get_my_proposals_handler page per_page u d = (d', ProposalPage es n m c, code)"
    by (auto simp: get_my_proposals_def role_required_def access_denied_def
        split: option.splits if_splits)
  define items where "items = paginate page per_page (my_proposals_query d u)"
  from h have es: "those (map (proposal_entry_of d) items) = Some es" and d': "d' = d"
    by (auto simp: get_my_proposals_handler_def Let_def items_def failed_def
        split: option.splits)
  have uid: "user_id u = caller"
    using u by (rule get_user_id)
  have "set items \<subseteq> set (my_proposals_query d u)"
    unfolding items_def by (rule paginate_subset)
  then have sub: "set items \<subseteq> {q \<in> set (proposals d). freelancer_id q = caller}"
    unfolding my_proposals_query_set uid .
  have ids: "map e_id es = map prop_id items"
    using es by (rule those_entries_ids)
  have iso: "prop_id q \<notin> set (map e_id es)"
    if dist: "distinct (map prop_id (proposals d))"
      and q: "q \<in> set (proposals d)" and f: "freelancer_id q \<noteq> caller" for q
  proof
    assume "prop_id q \<in> set (map e_id es)"
    then have "prop_id q \<in> prop_id ` set items"
      unfolding ids set_map .
    then obtain q' where q': "q' \<in> set items" and eq: "prop_id q = prop_id q'"
      by blast
    from q' sub have m: "q' \<in> set (proposals d)" and o: "freelancer_id q' = caller"
      by blast+
    from dist have "inj_on prop_id (set (proposals d))"
      by (simp add: distinct_map)
    from this eq q m have "q = q'"
      by (rule inj_onD)
    with f o show False
      by simp
  qed
  from sub es ids have ex: "\<exists>items. set items \<subseteq> {q \<in> set (proposals d). freelancer_id q = caller} \<and>
            those (map (proposal_entry_of d) items) = Some es \<and>
            map e_id es = map prop_id items"
    by blast
  from iso have all: "distinct (map prop_id (proposals d)) \<longrightarrow>
            (\<forall>q\<in>set (proposals d).
               freelancer_id q \<noteq> caller \<longrightarrow> prop_id q \<notin> set (map e_id es))"
    by blast
  show ?thesis
    by (intro conjI) (rule d' ex all)+
qed

text \<open>
  Bob's first page of two: his proposals 3 and 2, newest first, out of three. Dave's
  proposal 4 on the same project is not listed.
\<close>

lemma bob_page:
  "get_my_proposals 2 1 2 db4 = (db4, ProposalPage [bid_entry 3 22, bid_entry 2 21] 3 2 1, 200)"
  by (simp add: get_my_proposals_def role_required_def get_user_def
      get_my_proposals_handler_def my_proposals_query_def paginate_def pages_of_def
      proposal_entry_of_def get_project_def Let_def scenario_defs)

theorem get_my_proposals_isolation_witness:
  "get_my_proposals 2 1 2 db4 = (db4, ProposalPage [bid_entry 3 22, bid_entry 2 21] 3 2 1, 200) \<and>
   distinct (map prop_id (proposals db4)) \<and>
   bid 4 4 23 \<in> set (proposals db4) \<and> freelancer_id (bid 4 4 23) = 4 \<and>
   prop_id (bid 4 4 23) \<notin> set (map e_id [bid_entry 3 22, bid_entry 2 21])"
proof -
  have run: "get_my_proposals 2 1 2 db4
      = (db4, ProposalPage [bid_entry 3 22, bid_entry 2 21] 3 2 1, 200)"
    by (rule bob_page)
  have dist: "distinct (map prop_id (proposals db4))"
    by (simp add: scenario_defs)
  have q: "bid 4 4 23 \<in> set (proposals db4)"
    by (simp add: scenario_defs)
  have f: "freelancer_id (bid 4 4 23) = 4"
    by (simp add: bid_def)
  have f': "freelancer_id (bid 4 4 23) \<noteq> 2"
    by (simp add: bid_def)
  from get_my_proposals_isolation [OF run, THEN conjunct2, THEN conjunct2] dist q f'
  have n: "prop_id (bid 4 4 23) \<notin> set (map e_id [bid_entry 3 22, bid_entry 2 21])"
    by blast
  show ?thesis
    by (intro conjI) (rule run dist q f n)+
qed

section \<open>Submitting a proposal\<close>

lemma create_proposal_gate:
  assumes "get_user d caller = Some u" and "role u = ''freelancer''"
  shows "create_proposal rt caller data now d = create_proposal_handler rt data now u d"
  using assms by (simp add: create_proposal_def role_required_def)

lemma existing_proposals_append:
  "existing_proposals (d\<lparr>proposals := proposals d @ [q]\<rparr>) fid pid
     = existing_proposals d fid pid
       + (if freelancer_id q = fid \<and> project_id q = pid then 1 else 0)"
  by (simp add: existing_proposals_def)

lemma create_proposal_step:
  assumes u: "get_user d caller = Some u" and r: "role u = ''freelancer''"
    and fm: "first_missing kvs [''project_id'', ''cover_letter'', ''bid_amount'',
                                ''timeline_days''] = None"
    and v: "dict_get kvs ''project_id'' = Some v" and k: "as_key rt v = Key pid"
    and c: "dict_get kvs ''cover_letter'' = Some c"
    and b: "dict_get kvs ''bid_amount'' = Some b" and fb: "py_float rt b = Some fb"
    and t: "dict_get kvs ''timeline_days'' = Some t" and ti: "py_int rt t = Some ti"
    and p: "get_project d pid = Some p" and st: "proj_status p = JStr ''open''"
    and lim: "existing_proposals d caller pid < 3"
    and ok: "\<And>d'. commit_ok rt d'"
  shows "create_proposal rt caller (JObj kvs) now d =
           (d\<lparr>proposals := proposals d @
                 [\<lparr>prop_id = next_id (map prop_id (proposals d)), cover_letter = c,
                   bid_amount = fb, timeline_days = ti, prop_status = ''pending'',
                   freelancer_id = caller, project_id = pid, submitted_at = now\<rparr>]\<rparr>,
            Created ''Proposal submitted successfully'' (next_id (map prop_id (proposals d))),
            201)"
proof -
  have uid: "user_id u = caller"
    using u by (rule get_user_id)
  have np: "new_proposal rt kvs now u pid d =
      Some \<lparr>prop_id = next_id (map prop_id (proposals d)), cover_letter = c,
            bid_amount = fb, timeline_days = ti, prop_status = ''pending'',
            freelancer_id = caller, project_id = pid, submitted_at = now\<rparr>"
    by (simp add: new_proposal_def c b fb t ti uid)
  have "\<not> 3 \<le> existing_proposals d (user_id u) pid"
    using lim uid by simp
  then show ?thesis
    unfolding create_proposal_gate [OF u r] create_proposal_handler_def
    by (simp add: fm v k p st np commit_def ok del: first_missing.simps)
qed

lemma create_proposal_limit:
  assumes u: "get_user d caller = Some u" and r: "role u = ''freelancer''"
    and fm: "first_missing kvs [''project_id'', ''cover_letter'', ''bid_amount'',
                                ''timeline_days''] = None"
    and v: "dict_get kvs ''project_id'' = Some v" and k: "as_key rt v = Key pid"
    and p: "get_project d pid = Some p" and st: "proj_status p = JStr ''open''"
    and lim: "3 \<le> existing_proposals d caller pid"
  shows "create_proposal rt caller (JObj kvs) now d =
           (d, Msg ''Proposal limit reached (3 proposals per project)'', 400)"
proof -
  have uid: "user_id u = caller"
    using u by (rule get_user_id)
  show ?thesis
    unfolding create_proposal_gate [OF u r] create_proposal_handler_def
    using lim by (simp add: fm v k p st uid del: first_missing.simps)
qed

text \<open>
  Claim C4. A proposal-creation call whose \<^verbatim>\<open>project_id\<close> names a project that is not
  open never inserts a row and never answers 201, whoever calls and whatever else the
  body holds. For a freelancer whose required fields are all present (the two checks the
  handler makes first) the answer is exactly 400 "Project is not accepting proposals",
  the specification's ConflictError; had the project not existed, the same call would
  be answered 404 "Project not found", a different response.
\<close>

theorem create_proposal_not_open:
  assumes v: "dict_get kvs ''project_id'' = Some v" and k: "as_key rt v = Key pid"
  shows "(get_project d pid = Some p \<and> proj_status p \<noteq> JStr ''open'' \<longrightarrow>
            fst (create_proposal rt caller (JObj kvs) now d) = d \<and>
            snd (snd (create_proposal rt caller (JObj kvs) now d)) \<noteq> 201 \<and>
            (get_user d caller = Some u \<and> role u = ''freelancer'' \<and>
             first_missing kvs [''project_id'', ''cover_letter'', ''bid_amount'',
                                ''timeline_days''] = None \<longrightarrow>
               create_proposal rt caller (JObj kvs) now d
                 = (d, Msg ''Project is not accepting proposals'', 400))) \<and>
         (get_project d pid = None \<and> get_user d caller = Some u \<and> role u = ''freelancer'' \<and>
          first_missing kvs [''project_id'', ''cover_letter'', ''bid_amount'',
                             ''timeline_days''] = None \<longrightarrow>
            create_proposal rt caller (JObj kvs) now d = (d, Msg ''Project not found'', 404)) \<and>
         (Msg ''Project is not accepting proposals'', 400 :: nat) \<noteq> (Msg ''Project not found'', 404)"
proof -
  have a: "fst (create_proposal rt caller (JObj kvs) now d) = d \<and>
           snd (snd (create_proposal rt caller (JObj kvs) now d)) \<noteq> 201"
    if "get_project d pid = Some p" and "proj_status p \<noteq> JStr ''open''"
    using that v k
    by (auto simp: create_proposal_def role_required_def create_proposal_handler_def
        access_denied_def split: option.splits)
  have b: "create_proposal rt caller (JObj kvs) now d
             = (d, Msg ''Project is not accepting proposals'', 400)"
    if "get_project d pid = Some p" and "proj_status p \<noteq> JStr ''open''"
      and "get_user d caller = Some u" and "role u = ''freelancer''"
      and "first_missing kvs [''project_id'', ''cover_letter'', ''bid_amount'',
                              ''timeline_days''] = None"
    using that v k
    by (simp add: create_proposal_gate create_proposal_handler_def)
  have c: "create_proposal rt caller (JObj kvs) now d = (d, Msg ''Project not found'', 404)"
    if "get_project d pid = None"
      and "get_user d caller = Some u" and "role u = ''freelancer''"
      and "first_missing kvs [''project_id'', ''cover_letter'', ''bid_amount'',
                              ''timeline_days''] = None"
    using that v k
    by (simp add: create_proposal_gate create_proposal_handler_def)
  have e: "(Msg ''Project is not accepting proposals'', 400 :: nat) \<noteq> (Msg ''Project not found'', 404)"
    by simp
  from a b c e show ?thesis
    by blast
qed

text \<open>
  Once "Build API" is in progress, Bob's bid on it is refused as not open; his bid on the
  missing project 9 is refused as not found.
\<close>

lemma bid_fields_valid:
  "first_missing (bid_fields i) [''project_id'', ''cover_letter'', ''bid_amount'',
                                 ''timeline_days''] = None \<longleftrightarrow> i \<noteq> 0"
  by (simp add: bid_fields_def dict_get_def)

theorem create_proposal_not_open_witness:
  "dict_get (bid_fields 1) ''project_id'' = Some (JInt 1) \<and> as_key rt0 (JInt 1) = Key 1 \<and>
   dict_get (bid_fields 9) ''project_id'' = Some (JInt 9) \<and> as_key rt0 (JInt 9) = Key 9 \<and>
   get_user db_closed 2 = Some bob \<and> role bob = ''freelancer'' \<and>
   get_project db_closed 1 = Some (build_api\<lparr>proj_status := JStr ''in_progress''\<rparr>) \<and>
   get_project db_closed 9 = None \<and>
   create_proposal rt0 2 (JObj (bid_fields 1)) 30 db_closed
     = (db_closed, Msg ''Project is not accepting proposals'', 400) \<and>
   create_proposal rt0 2 (JObj (bid_fields 9)) 30 db_closed
     = (db_closed, Msg ''Project not found'', 404)"
proof -
  have v1: "dict_get (bid_fields 1) ''project_id'' = Some (JInt 1)"
    by (simp add: bid_fields_def dict_get_def)
  have k1: "as_key rt0 (JInt 1) = Key 1"
    by simp
  have v9: "dict_get (bid_fields 9) ''project_id'' = Some (JInt 9)"
    by (simp add: bid_fields_def dict_get_def)
  have k9: "as_key rt0 (JInt 9) = Key 9"
    by simp
  have u: "get_user db_closed 2 = Some bob"
    by (simp add: get_user_def scenario_defs)
  have r: "role bob = ''freelancer''"
    by (simp add: bob_def)
  have p1: "get_project db_closed 1 = Some (build_api\<lparr>proj_status := JStr ''in_progress''\<rparr>)"
    by (simp add: get_project_def scenario_defs)
  have s1: "proj_status (build_api\<lparr>proj_status := JStr ''in_progress''\<rparr>) \<noteq> JStr ''open''"
    by simp
  have p9: "get_project db_closed 9 = None"
    by (simp add: get_project_def scenario_defs)
  have f1: "first_missing (bid_fields 1) [''project_id'', ''cover_letter'', ''bid_amount'',
                                 ''timeline_days''] = None"
    by (simp add: bid_fields_valid del: first_missing.simps)
  have f9: "first_missing (bid_fields 9) [''project_id'', ''cover_letter'', ''bid_amount'',
                                 ''timeline_days''] = None"
    by (simp add: bid_fields_valid del: first_missing.simps)
  from create_proposal_not_open [OF v1 k1, of db_closed
      "build_api\<lparr>proj_status := JStr ''in_progress''\<rparr>" 2 30 bob] p1 s1 u r f1
  have a: "create_proposal rt0 2 (JObj (bid_fields 1)) 30 db_closed
     = (db_closed, Msg ''Project is not accepting proposals'', 400)"
    by blast
  from create_proposal_not_open [OF v9 k9, of db_closed
      "build_api\<lparr>proj_status := JStr ''in_progress''\<rparr>" 2 30 bob] p9 u r f9
  have b: "create_proposal rt0 2 (JObj (bid_fields 9)) 30 db_closed
     = (db_closed, Msg ''Project not found'', 404)"
    by blast
  show ?thesis
    by (intro conjI) (rule v1 k1 v9 k9 u r p1 p9 a b)+
qed

text \<open>
  Claim C5. Take a freelancer and an open project, a body that passes validation and
  whose numbers convert, and an engine that accepts the commits. While the freelancer
  has fewer than three proposals on the project, a creation call answers 201 and
  appends one row with status "pending", raising the count by one; with three or more
  it answers 400 "Proposal limit reached" and the store is unchanged. Hence, starting
  from none, four calls in a row answer 201, 201, 201, 400 and leave three proposals.
\<close>

theorem proposal_limit_three:
  assumes u: "get_user d caller = Some u" and r: "role u = ''freelancer''"
    and fm: "first_missing kvs [''project_id'', ''cover_letter'', ''bid_amount'',
                                ''timeline_days''] = None"
    and v: "dict_get kvs ''project_id'' = Some v" and k: "as_key rt v = Key pid"
    and c: "dict_get kvs ''cover_letter'' = Some c"
    and b: "dict_get kvs ''bid_amount'' = Some b" and fb: "py_float rt b = Some fb"
    and t: "dict_get kvs ''timeline_days'' = Some t" and ti: "py_int rt t = Some ti"
    and p: "get_project d pid = Some p" and st: "proj_status p = JStr ''open''"
    and ok: "\<And>d'. commit_ok rt d'"
  shows "(existing_proposals d caller pid < 3 \<longrightarrow>
            (\<exists>d' i q. create_proposal rt caller (JObj kvs) now d
                         = (d', Created ''Proposal submitted successfully'' i, 201) \<and>
               proposals d' = proposals d @ [q] \<and> prop_status q = ''pending'' \<and>
               freelancer_id q = caller \<and> project_id q = pid \<and>
               existing_proposals d' caller pid = existing_proposals d caller pid + 1)) \<and>
         (3 \<le> existing_proposals d caller pid \<longrightarrow>
            create_proposal rt caller (JObj kvs) now d
              = (d, Msg ''Proposal limit reached (3 proposals per project)'', 400)) \<and>
         (existing_proposals d caller pid = 0 \<longrightarrow>
            map snd (snd (run rt [CreateProposal caller (JObj kvs) na,
                                  CreateProposal caller (JObj kvs) nb,
                                  CreateProposal caller (JObj kvs) nc,
                                  CreateProposal caller (JObj kvs) nd] d))
              = [201, 201, 201, 400] \<and>
            last (snd (run rt [CreateProposal caller (JObj kvs) na,
                               CreateProposal caller (JObj kvs) nb,
                               CreateProposal caller (JObj kvs) nc,
                               CreateProposal caller (JObj kvs) nd] d))
              = (Msg ''Proposal limit reached (3 proposals per project)'', 400) \<and>
            existing_proposals
              (fst (run rt [CreateProposal caller (JObj kvs) na,
                            CreateProposal caller (JObj kvs) nb,
                            CreateProposal caller (JObj kvs) nc,
                            CreateProposal caller (JObj kvs) nd] d)) caller pid = 3)"
proof -
  define row where "row = (\<lambda>(d0 :: db) (now0 :: int).
     \<lparr>prop_id = next_id (map prop_id (proposals d0)), cover_letter = c,
       bid_amount = fb, timeline_days = ti, prop_status = ''pending'',
       freelancer_id = caller, project_id = pid, submitted_at = now0\<rparr>)"
  define ins where "ins = (\<lambda>(d0 :: db) (now0 :: int). d0\<lparr>proposals := proposals d0 @ [row d0 now0]\<rparr>)"
  have step: "create_proposal rt caller (JObj kvs) now0 d0 =
      (ins d0 now0,
       Created ''Proposal submitted successfully'' (next_id (map prop_id (proposals d0))), 201)"
    if "get_user d0 caller = Some u" and "get_project d0 pid = Some p"
      and "existing_proposals d0 caller pid < 3" for d0 now0
    using create_proposal_step [OF that(1) r fm v k c b fb t ti that(2) st that(3) ok]
    by (simp add: ins_def row_def)
  have limit: "create_proposal rt caller (JObj kvs) now0 d0 =
      (d0, Msg ''Proposal limit reached (3 proposals per project)'', 400)"
    if "get_user d0 caller = Some u" and "get_project d0 pid = Some p"
      and "3 \<le> existing_proposals d0 caller pid" for d0 now0
    using that(1) r fm v k that(2) st that(3) by (rule create_proposal_limit)
  have keep_u: "get_user (ins d0 now0) caller = get_user d0 caller" for d0 now0
    by (simp add: ins_def get_user_def)
  have keep_p: "get_project (ins d0 now0) pid = get_project d0 pid" for d0 now0
    by (simp add: ins_def get_project_def)
  have cnt: "existing_proposals (ins d0 now0) caller pid = existing_proposals d0 caller pid + 1"
    for d0 now0
    by (simp add: ins_def row_def existing_proposals_append)
  have first: "\<exists>d' i q. create_proposal rt caller (JObj kvs) now d
                         = (d', Created ''Proposal submitted successfully'' i, 201) \<and>
               proposals d' = proposals d @ [q] \<and> prop_status q = ''pending'' \<and>
               freelancer_id q = caller \<and> project_id q = pid \<and>
               existing_proposals d' caller pid = existing_proposals d caller pid + 1"
    if lt: "existing_proposals d caller pid < 3"
  proof (intro exI conjI)
    show "create_proposal rt caller (JObj kvs) now d =
      (ins d now,
       Created ''Proposal submitted successfully'' (next_id (map prop_id (proposals d))), 201)"
      using u p lt by (rule step)
    show "proposals (ins d now) = proposals d @ [row d now]"
      by (simp add: ins_def)
    show "prop_status (row d now) = ''pending''"
      by (simp add: row_def)
    show "freelancer_id (row d now) = caller"
      by (simp add: row_def)
    show "project_id (row d now) = pid"
      by (simp add: row_def)
    show "existing_proposals (ins d now) caller pid = existing_proposals d caller pid + 1"
      by (rule cnt)
  qed
  have seq: "map snd (snd (run rt [CreateProposal caller (JObj kvs) na,
                                  CreateProposal caller (JObj kvs) nb,
                                  CreateProposal caller (JObj kvs) nc,
                                  CreateProposal caller (JObj kvs) nd] d))
              = [201, 201, 201, 400] \<and>
            last (snd (run rt [CreateProposal caller (JObj kvs) na,
                               CreateProposal caller (JObj kvs) nb,
                               CreateProposal caller (JObj kvs) nc,
                               CreateProposal caller (JObj kvs) nd] d))
              = (Msg ''Proposal limit reached (3 proposals per project)'', 400) \<and>
            existing_proposals
              (fst (run rt [CreateProposal caller (JObj kvs) na,
                            CreateProposal caller (JObj kvs) nb,
                            CreateProposal caller (JObj kvs) nc,
                            CreateProposal caller (JObj kvs) nd] d)) caller pid = 3"
    if z: "existing_proposals d caller pid = 0"
  proof -
    let ?d1 = "ins d na"
    let ?d2 = "ins ?d1 nb"
    let ?d3 = "ins ?d2 nc"
    have n1: "existing_proposals ?d1 caller pid = 1"
      by (simp add: cnt z)
    have n2: "existing_proposals ?d2 caller pid = 2"
      by (simp add: cnt z)
    have n3: "existing_proposals ?d3 caller pid = 3"
      by (simp add: cnt z)
    have s1: "create_proposal rt caller (JObj kvs) na d =
        (?d1, Created ''Proposal submitted successfully'' (next_id (map prop_id (proposals d))),
         201)"
      by (rule step) (simp_all add: u p z)
    have s2: "create_proposal rt caller (JObj kvs) nb ?d1 =
        (?d2, Created ''Proposal submitted successfully''
               (next_id (map prop_id (proposals ?d1))), 201)"
      by (rule step) (simp_all add: keep_u keep_p u p n1)
    have s3: "create_proposal rt caller (JObj kvs) nc ?d2 =
        (?d3, Created ''Proposal submitted successfully''
               (next_id (map prop_id (proposals ?d2))), 201)"
      by (rule step) (simp_all add: keep_u keep_p u p n2)
    have s4: "create_proposal rt caller (JObj kvs) nd ?d3 =
        (?d3, Msg ''Proposal limit reached (3 proposals per project)'', 400)"
      by (rule limit) (simp_all add: keep_u keep_p u p n3)
    have "run rt [CreateProposal caller (JObj kvs) na,
                  CreateProposal caller (JObj kvs) nb,
                  CreateProposal caller (JObj kvs) nc,
                  CreateProposal caller (JObj kvs) nd] d =
          (?d3,
           [(Created ''Proposal submitted successfully''
               (next_id (map prop_id (proposals d))), 201),
            (Created ''Proposal submitted successfully''
               (next_id (map prop_id (proposals ?d1))), 201),
            (Created ''Proposal submitted successfully''
               (next_id (map prop_id (proposals ?d2))), 201),
            (Msg ''Proposal limit reached (3 proposals per project)'', 400)])"
      by (simp add: s1 s2 s3 s4)
    then show ?thesis
      by (simp add: n3)
  qed
  have lim: "create_proposal rt caller (JObj kvs) now d
              = (d, Msg ''Proposal limit reached (3 proposals per project)'', 400)"
    if "3 \<le> existing_proposals d caller pid"
    using u p that by (rule limit)
  from first lim seq show ?thesis
    by blast
qed

text \<open>Bob's four bids on "Build API", and one more once four proposals are in.\<close>

theorem proposal_limit_three_witness:
  "get_user db1 2 = Some bob \<and> role bob = ''freelancer'' \<and>
   get_project db1 1 = Some build_api \<and> proj_status build_api = JStr ''open'' \<and>
   existing_proposals db1 2 1 = 0 \<and>
   map snd (snd (run rt0 [CreateProposal 2 bid_body 20, CreateProposal 2 bid_body 21,
                          CreateProposal 2 bid_body 22, CreateProposal 2 bid_body 23] db1))
     = [201, 201, 201, 400] \<and>
   existing_proposals db4 2 1 = 3 \<and>
   create_proposal rt0 2 bid_body 30 db4
     = (db4, Msg ''Proposal limit reached (3 proposals per project)'', 400)"
proof -
  have r: "role bob = ''freelancer''"
    by (simp add: bob_def)
  have fm: "first_missing (bid_fields 1) [''project_id'', ''cover_letter'', ''bid_amount'',
                                 ''timeline_days''] = None"
    by (simp add: bid_fields_valid del: first_missing.simps)
  have v: "dict_get (bid_fields 1) ''project_id'' = Some (JInt 1)"
    by (simp add: bid_fields_def dict_get_def)
  have k: "as_key rt0 (JInt 1) = Key 1"
    by simp
  have c: "dict_get (bid_fields 1) ''cover_letter'' = Some (JStr ''I can do it'')"
    by (simp add: bid_fields_def dict_get_def)
  have b: "dict_get (bid_fields 1) ''bid_amount'' = Some (JInt 400)"
    by (simp add: bid_fields_def dict_get_def)
  have fb: "py_float rt0 (JInt 400) = Some (Fin 400)"
    by simp
  have t: "dict_get (bid_fields 1) ''timeline_days'' = Some (JInt 7)"
    by (simp add: bid_fields_def dict_get_def)
  have ti: "py_int rt0 (JInt 7) = Some 7"
    by simp
  have st: "proj_status build_api = JStr ''open''"
    by (simp add: build_api_def)
  have ok: "\<And>d'. commit_ok rt0 d'"
    by (simp add: rt0_def)
  have u1: "get_user db1 2 = Some bob"
    by (simp add: get_user_def scenario_defs)
  have p1: "get_project db1 1 = Some build_api"
    by (simp add: get_project_def scenario_defs)
  have z1: "existing_proposals db1 2 1 = 0"
    by (simp add: existing_proposals_def scenario_defs)
  have u4: "get_user db4 2 = Some bob"
    by (simp add: get_user_def scenario_defs)
  have p4: "get_project db4 1 = Some build_api"
    by (simp add: get_project_def scenario_defs)
  have z4: "existing_proposals db4 2 1 = 3"
    by (simp add: existing_proposals_def scenario_defs)
  from proposal_limit_three [OF u1 r fm v k c b fb t ti p1 st ok, of 20 20 21 22 23] z1
  have a: "map snd (snd (run rt0 [CreateProposal 2 bid_body 20, CreateProposal 2 bid_body 21,
                          CreateProposal 2 bid_body 22, CreateProposal 2 bid_body 23] db1))
     = [201, 201, 201, 400]"
    unfolding bid_body_def by blast
  have "3 \<le> existing_proposals db4 2 1"
    by (simp add: z4)
  with proposal_limit_three [OF u4 r fm v k c b fb t ti p4 st ok, of 30 20 21 22 23]
  have l: "create_proposal rt0 2 bid_body 30 db4
     = (db4, Msg ''Proposal limit reached (3 proposals per project)'', 400)"
    unfolding bid_body_def by blast
  show ?thesis
    by (intro conjI) (rule u1 r p1 st z1 a z4 l)+
qed

section \<open>Creating a project\<close>

lemma first_missing_None:
  "first_missing kvs fs = None \<Longrightarrow> f \<in> set fs \<Longrightarrow> \<exists>v. dict_get kvs f = Some v \<and> truthy v"
proof (induction fs)
  case Nil
  then show ?case by simp
next
  case (Cons g gs)
  from Cons.prems(1) obtain w where w: "dict_get kvs g = Some w" and tw: "truthy w"
    and rest: "first_missing kvs gs = None"
    by (auto split: option.splits if_splits)
  show ?case
  proof (cases "f = g")
    case True
    with w tw show ?thesis by simp
  next
    case False
    with Cons.prems(2) have "f \<in> set gs" by simp
    with rest show ?thesis by (rule Cons.IH)
  qed
qed

lemma create_project_unchanged_or_created:
  "fst (create_project rt caller data now d) = d \<or>
   snd (snd (create_project rt caller data now d)) = 201"
  by (auto simp: create_project_def role_required_def create_project_handler_def
      access_denied_def commit_def failed_def
      split: option.splits json.splits)

text \<open>
  Claim C7, as the code has it. A project-creation call answers 201 only when the caller
  holds the role client, the four fields title, description, budget and
  skills_required are present and truthy, and \<^verbatim>\<open>float(budget)\<close> does not raise; the new
  row then has status "open", the caller as client and the converted budget. Any other
  answer leaves the store unchanged. The handler never compares the budget with zero.
\<close>

theorem create_project_requirements:
  assumes run: "create_project rt caller data now d = (d', resp)"
  shows "(snd resp = 201 \<longrightarrow>
           (\<exists>u kvs t ds b fb s.
              get_user d caller = Some u \<and> role u = ''client'' \<and> data = JObj kvs \<and>
              dict_get kvs ''title'' = Some t \<and> truthy t \<and>
              dict_get kvs ''description'' = Some ds \<and> truthy ds \<and>
              dict_get kvs ''budget'' = Some b \<and> truthy b \<and> py_float rt b = Some fb \<and>
              dict_get kvs ''skills_required'' = Some s \<and> truthy s \<and>
              d' = d\<lparr>projects := projects d @
                       [\<lparr>proj_id = next_id (map proj_id (projects d)), title = t,
                         description = ds, budget = JFloat fb, skills_required = s,
                         proj_status = JStr ''open'', client_id = caller,
                         created_at = now\<rparr>]\<rparr>)) \<and>
         (snd resp \<noteq> 201 \<longrightarrow> d' = d)"
proof -
  have keep: "d' = d" if "snd resp \<noteq> 201"
    using create_project_unchanged_or_created [of rt caller data now d] that run by simp
  have made: "\<exists>u kvs t ds b fb s.
              get_user d caller = Some u \<and> role u = ''client'' \<and> data = JObj kvs \<and>
              dict_get kvs ''title'' = Some t \<and> truthy t \<and>
              dict_get kvs ''description'' = Some ds \<and> truthy ds \<and>
              dict_get kvs ''budget'' = Some b \<and> truthy b \<and> py_float rt b = Some fb \<and>
              dict_get kvs ''skills_required'' = Some s \<and> truthy s \<and>
              d' = d\<lparr>projects := projects d @
                       [\<lparr>proj_id = next_id (map proj_id (projects d)), title = t,
                         description = ds, budget = JFloat fb, skills_required = s,
                         proj_status = JStr ''open'', client_id = caller,
                         created_at = now\<rparr>]\<rparr>"
    if c: "snd resp = 201"
  proof -
    from run c obtain u where u: "get_user d caller = Some u" and r: "role u = ''client''"
      and h: "create_project_handler rt data now u d = (d', resp)"
      by (auto simp: create_project_def role_required_def access_denied_def
          split: option.splits if_splits)
    have uid: "user_id u = caller"
      using u by (rule get_user_id)
    from h c obtain kvs where data: "data = JObj kvs"
      by (cases data) (auto simp: create_project_handler_def failed_def)
    from h c data have fm: "first_missing kvs
        [''title'', ''description'', ''budget'', ''skills_required''] = None"
      by (cases "first_missing kvs [''title'', ''description'', ''budget'', ''skills_required'']")
        (auto simp: create_project_handler_def simp del: first_missing.simps)
    from h c data fm obtain project where np: "new_project rt kvs now u d = Some project"
      and d': "d' = d\<lparr>projects := projects d @ [project]\<rparr>"
      by (cases "new_project rt kvs now u d")
        (auto simp: create_project_handler_def failed_def commit_def
          simp del: first_missing.simps split: if_splits)
    from first_missing_None [OF fm, of "''title''"] obtain t
      where t: "dict_get kvs ''title'' = Some t" "truthy t" by auto
    from first_missing_None [OF fm, of "''description''"] obtain ds
      where ds: "dict_get kvs ''description'' = Some ds" "truthy ds" by auto
    from first_missing_None [OF fm, of "''budget''"] obtain b
      where b: "dict_get kvs ''budget'' = Some b" "truthy b" by auto
    from first_missing_None [OF fm, of "''skills_required''"] obtain s
      where s: "dict_get kvs ''skills_required'' = Some s" "truthy s" by auto
    from np t ds b s obtain fb where fb: "py_float rt b = Some fb"
      and project: "project = \<lparr>proj_id = next_id (map proj_id (projects d)), title = t,
                         description = ds, budget = JFloat fb, skills_required = s,
                         proj_status = JStr ''open'', client_id = caller,
                         created_at = now\<rparr>"
      by (cases "py_float rt b") (auto simp: new_project_def uid)
    from u r data t ds b fb s d' project show ?thesis
      by blast
  qed
  from keep made show ?thesis
    by blast
qed

text \<open>Alice's "Build API" with budget 500.\<close>

theorem create_project_requirements_witness:
  "create_project rt0 1 (project_body 500) 10 db_users
     = (db1, Created ''Project created successfully'' 1, 201) \<and>
   (\<exists>u kvs b fb. get_user db_users 1 = Some u \<and> role u = ''client'' \<and>
      project_body 500 = JObj kvs \<and> dict_get kvs ''budget'' = Some b \<and> truthy b \<and>
      py_float rt0 b = Some fb) \<and>
   map proj_status (projects db1) = [JStr ''open'']"
proof -
  have run: "create_project rt0 1 (project_body 500) 10 db_users
     = (db1, Created ''Project created successfully'' 1, 201)"
    by (simp add: create_project_def role_required_def get_user_def create_project_handler_def
        new_project_def dict_get_def next_id_def commit_def scenario_defs)
  have c: "snd (Created ''Project created successfully'' 1, 201 :: nat) = 201"
    by simp
  from create_project_requirements [OF run] c
  have ex: "\<exists>u kvs b fb. get_user db_users 1 = Some u \<and> role u = ''client'' \<and>
      project_body 500 = JObj kvs \<and> dict_get kvs ''budget'' = Some b \<and> truthy b \<and>
      py_float rt0 b = Some fb"
    by blast
  have st: "map proj_status (projects db1) = [JStr ''open'']"
    by (simp add: scenario_defs)
  show ?thesis
    by (intro conjI) (rule run ex st)+
qed

text \<open>
  The claim as stated asks for a positive budget. A budget of -5 is truthy and converts,
  so the project is created, with budget -5.0.
\<close>

theorem create_project_negative_budget:
  "create_project rt0 1 (project_body (- 5)) 10 db_users
     = (db_users\<lparr>projects := [build_api\<lparr>budget := JFloat (Fin (- 5))\<rparr>]\<rparr>,
        Created ''Project created successfully'' 1, 201) \<and>
   py_float rt0 (JInt (- 5)) = Some (Fin (- 5)) \<and> \<not> (0 :: rat) < - 5"
  by (simp add: create_project_def role_required_def get_user_def create_project_handler_def
      new_project_def dict_get_def next_id_def commit_def scenario_defs)

end
